theory Spec2Isabelle
  imports Main "HOL-Library.Sublist"
begin

section \<open>A small model of the Python the two scripts use\<close>

text \<open>
  Both scripts are straight-line Python: calls that may raise, \<^verbatim>\<open>print\<close>, a
  \<^verbatim>\<open>with\<close> block and (in the smoke test) one \<^verbatim>\<open>try/except\<close>. A process is
  modelled by the trace of what it did to the outside world, in order; a statement is a
  function from the process state to the exception it raised, if any, and the new state.
\<close>

datatype event =
    Print string
  | WsConnect string
  | Sleep nat
  | WsSend string
  | WsClose
  | FileOpen string
  | FileWrite string string
  | FileClose string

record process =
  trace :: "event list"

type_synonym ('e, 's) action = "'s \<Rightarrow> 'e option \<times> 's"

text \<open>\<^verbatim>\<open>print(s)\<close>: one line on standard output.\<close>

definition print :: "string \<Rightarrow> ('e, 'a process_scheme) action" where
  "print s w = (None, w\<lparr>trace := trace w @ [Print s]\<rparr>)"

text \<open>A sequence of statements: the first one that raises ends the sequence.\<close>

fun block :: "('e, 's) action list \<Rightarrow> ('e, 's) action" where
  "block [] w = (None, w)"
| "block (a # as) w =
     (case a w of
        (Some e, w') \<Rightarrow> (Some e, w')
      | (None, w') \<Rightarrow> block as w')"

text \<open>
  \<^verbatim>\<open>with enter as x: body\<close> (and \<^verbatim>\<open>async with\<close>): when \<open>enter\<close> raises, the body
  does not run and nothing is released; once it has returned, \<open>leave\<close> runs after the
  body whether the body raised or not, and an exception of the body is raised again.
\<close>

definition with_scope ::
    "('e, 's) action \<Rightarrow> ('e, 's) action \<Rightarrow> ('s \<Rightarrow> 's) \<Rightarrow> ('e, 's) action" where
  "with_scope enter body leave w =
     (case enter w of
        (Some e, w') \<Rightarrow> (Some e, w')
      | (None, w') \<Rightarrow> (case body w' of (r, w'') \<Rightarrow> (r, leave w'')))"

section \<open>SmokeTester: \<^verbatim>\<open>test_websocket.py\<close>\<close>

text \<open>
  What can be raised in the smoke test. \<open>Error m\<close> is an instance of \<^verbatim>\<open>Exception\<close>
  whose \<^verbatim>\<open>str\<close> is \<open>m\<close>; \<open>Interrupt m\<close> derives from \<^verbatim>\<open>BaseException\<close> only
  (\<^verbatim>\<open>asyncio.CancelledError\<close>, \<^verbatim>\<open>KeyboardInterrupt\<close>); \<open>SystemExit n\<close> is what
  \<^verbatim>\<open>sys.exit(n)\<close> raises.
\<close>

datatype py_exception =
    Error string
  | Interrupt string
  | SystemExit int

text \<open>
  The network and the scheduler are outside the script. A \<open>network\<close> fixes what each of
  the four awaited calls of the run does, in source order: \<open>None\<close> when it returns,
  \<open>Some e\<close> when it raises \<open>e\<close>. Closing the connection on leaving the \<^verbatim>\<open>async with\<close>
  block is an event of the trace; it is not one of the failure points.
\<close>

record network =
  handshake :: "py_exception option"
  first_sleep :: "py_exception option"
  send_frame :: "py_exception option"
  second_sleep :: "py_exception option"

text \<open>An awaited call: it is started (the event), then returns or raises.\<close>

definition await :: "event \<Rightarrow> 'e option \<Rightarrow> ('e, 'a process_scheme) action" where
  "await ev r w = (r, w\<lparr>trace := trace w @ [ev]\<rparr>)"

definition ws_close :: "'a process_scheme \<Rightarrow> 'a process_scheme" where
  "ws_close w = w\<lparr>trace := trace w @ [WsClose]\<rparr>"

text \<open>
  \<^verbatim>\<open>try: body except Exception as e: handler\<close>: only an instance of \<^verbatim>\<open>Exception\<close> is
  caught; the handler receives \<^verbatim>\<open>str(e)\<close>, the only thing the script uses of \<open>e\<close>.
\<close>

definition try_except_Exception ::
    "(py_exception, 's) action \<Rightarrow> (string \<Rightarrow> (py_exception, 's) action) \<Rightarrow>
     (py_exception, 's) action" where
  "try_except_Exception body handler w =
     (case body w of
        (Some (Error m), w') \<Rightarrow> handler m w'
      | r \<Rightarrow> r)"

definition sys_exit :: "int \<Rightarrow> (py_exception, 's) action" where
  "sys_exit n w = (Some (SystemExit n), w)"

definition uri :: string where
  "uri = ''ws://localhost:3000/demos/todo/''"

text \<open>The block inside \<^verbatim>\<open>try\<close>: the connection scope and its five statements.\<close>

definition session :: "network \<Rightarrow> (py_exception, process) action" where
  "session net =
     with_scope (await (WsConnect uri) (handshake net))
       (block
          [print ''WebSocket connected successfully!'',
           await (Sleep 1) (first_sleep net),
           await (WsSend ''Hello WebSocket'') (send_frame net),
           await (Sleep 1) (second_sleep net),
           print ''WebSocket connection stable - no crashes!''])
       ws_close"

definition test_websocket :: "network \<Rightarrow> (py_exception, process) action" where
  "test_websocket net =
     try_except_Exception (session net)
       (\<lambda>m. block [print (''Error: '' @ m), sys_exit 1])"

text \<open>
  How the process ends: with an exit status, or with an exception nobody caught, which
  the interpreter reports itself.
\<close>

datatype ending =
    Exited int
  | Uncaught py_exception

text \<open>
  \<^verbatim>\<open>asyncio.run(test_websocket())\<close> as the whole program: a normal return is exit
  status 0, \<^verbatim>\<open>SystemExit(n)\<close> is exit status \<open>n\<close>.
\<close>

definition main :: "network \<Rightarrow> event list \<times> ending" where
  "main net =
     (case test_websocket net \<lparr>trace = []\<rparr> of
        (None, w) \<Rightarrow> (trace w, Exited 0)
      | (Some (SystemExit n), w) \<Rightarrow> (trace w, Exited n)
      | (Some e, w) \<Rightarrow> (trace w, Uncaught e))"

text \<open>
  The exception the network delivers first, in the order the script reaches the four
  calls; \<open>None\<close> when no call raises.
\<close>

definition first_raised :: "network \<Rightarrow> py_exception option" where
  "first_raised net =
     (case handshake net of
        Some e \<Rightarrow> Some e
      | None \<Rightarrow>
          (case first_sleep net of
             Some e \<Rightarrow> Some e
           | None \<Rightarrow>
               (case send_frame net of
                  Some e \<Rightarrow> Some e
                | None \<Rightarrow> second_sleep net)))"

definition quiet :: network where
  "quiet = \<lparr>handshake = None, first_sleep = None, send_frame = None, second_sleep = None\<rparr>"

text \<open>What a trace shows: the lines printed, and how often the connection was opened
  (a handshake was started), closed, and written to.\<close>

definition printed :: "event list \<Rightarrow> string list" where
  "printed tr = concat (map (\<lambda>e. case e of Print s \<Rightarrow> [s] | _ \<Rightarrow> []) tr)"

definition opens :: "event list \<Rightarrow> nat" where
  "opens tr = length (filter (\<lambda>e. case e of WsConnect u \<Rightarrow> True | _ \<Rightarrow> False) tr)"

definition closes :: "event list \<Rightarrow> nat" where
  "closes tr = length (filter (\<lambda>e. e = WsClose) tr)"

definition sends :: "event list \<Rightarrow> nat" where
  "sends tr = length (filter (\<lambda>e. case e of WsSend u \<Rightarrow> True | _ \<Rightarrow> False) tr)"

definition network_events :: "event list \<Rightarrow> event list" where
  "network_events tr = filter (\<lambda>e. case e of Print s \<Rightarrow> False | _ \<Rightarrow> True) tr"

section \<open>FixtureWriter: \<^verbatim>\<open>fix_plugin_configs.py\<close>\<close>

text \<open>
  A triple-quoted literal is its lines joined by newline characters, with no newline after
  the last one.
\<close>

fun text_of_lines :: "string list \<Rightarrow> string" where
  "text_of_lines [] = []"
| "text_of_lines [l] = l"
| "text_of_lines (l # ls) = l @ CHR 0x0A # text_of_lines ls"

text \<open>
  The literal \<open>selector_config\<close>, line for line as in the source (lines 6 to 52). The
  second character is a backslash: \<^verbatim>\<open>\!\<close> is not an escape sequence of Python, so
  both characters stay in the string.
\<close>

definition selector_config :: string where
  \<open>selector_config = text_of_lines
    [''<'' @ [CHR 0x5C] @ ''!DOCTYPE html>'',
     ''<html lang="en">'',
     ''<head>'',
     ''    <title>Selector Handler Plugin Test Configuration</title>'',
     ''</head>'',
     ''<body>'',
     ''    <h1>Selector Handler Plugin Test Configuration</h1>'',
     ''    '',
     ''    <table itemref="host-localhost" itemscope itemtype="http://rustybeam.net/ServerConfig">'',
     ''        <tbody>'',
     ''            <tr>'',
     ''                <td>Server Root</td>'',
     ''                <td itemprop="serverRoot">tests/plugins/hosts/selector-handler</td>'',
     ''            </tr>'',
     ''            <tr>'',
     ''                <td>Address</td>'',
     ''                <td itemprop="bindAddress">127.0.0.1</td>'',
     ''            </tr>'',
     ''            <tr>'',
     ''                <td>Port</td>'',
     ''                <td itemprop="bindPort">3000</td>'',
     ''            </tr>'',
     ''        </tbody>'',
     ''    </table>'',
     ''    '',
     ''    <table id="host-localhost" itemprop="host" itemscope itemtype="http://rustybeam.net/HostConfig">'',
     ''        <tbody>'',
     ''            <tr>'',
     ''                <td>Host Name</td>'',
     ''                <td itemprop="hostName">localhost</td>'',
     ''            </tr>'',
     ''            <tr>'',
     ''                <td>Host Root</td>'',
     ''                <td itemprop="hostRoot">tests/plugins/hosts/selector-handler</td>'',
     ''            </tr>'',
     ''            <tr itemprop="plugin" itemscope itemtype="http://rustybeam.net/Plugin">'',
     ''                <td>Selector Handler</td>'',
     ''                <td itemprop="library">file://./plugins/librusty_beam_selector_handler.so</td>'',
     ''            </tr>'',
     ''            <tr itemprop="plugin" itemscope itemtype="http://rustybeam.net/Plugin">'',
     ''                <td>File Handler</td>'',
     ''                <td itemprop="library">file://./plugins/librusty_beam_file_handler.so</td>'',
     ''            </tr>'',
     ''        </tbody>'',
     ''    </table>'',
     ''</body>'',
     ''</html>'']\<close>

text \<open>
  The file system the script runs on. \<^verbatim>\<open>open\<close>, \<^verbatim>\<open>f.write\<close> and the close at the
  end of the \<^verbatim>\<open>with\<close> block are the platform's, not the script's. The name space is
  modelled as POSIX has it: the directories and the regular files that exist, the
  directories the process may search, the directories and files it may write, and
  whether it runs as the superuser, for whom no permission is checked. What the device
  does is not modelled but given: whether the platform refuses the open for a reason of
  its own (a read-only file system, no descriptor left), and whether the write or the
  flush at close fails (no space left, an input/output error), and then after how many
  characters.
\<close>

text \<open>Every error is an instance of \<^verbatim>\<open>OSError\<close>, of which \<^verbatim>\<open>IOError\<close> is another
  name in Python 3; the argument is the path, or the message of the device.\<close>

datatype os_error =
    FileNotFoundError string
  | NotADirectoryError string
  | IsADirectoryError string
  | PermissionError string
  | OSError string

text \<open>\<open>Fault e k\<close>: the call raises \<open>e\<close>, and only \<open>k\<close> characters got through.\<close>

datatype fault = Fault os_error nat

record fs_process = process +
  dirs :: "string set"
  files :: "string \<rightharpoonup> string"
  searchable :: "string set"
  writable :: "string set"
  superuser :: bool
  open_fault :: "os_error option"
  write_fault :: "fault option"
  close_fault :: "fault option"

text \<open>The directory part of a path: what precedes its last slash.\<close>

definition dirname :: "string \<Rightarrow> string" where
  "dirname p = rev (tl (dropWhile (\<lambda>c. c \<noteq> CHR ''/'') (rev p)))"

text \<open>
  The directories a relative path is resolved through: the one the resolution starts in
  (the empty path), then what precedes each slash, down to the parent directory.
\<close>

fun dir_prefixes :: "string \<Rightarrow> string \<Rightarrow> string list" where
  "dir_prefixes acc [] = []"
| "dir_prefixes acc (c # cs) =
     (if c = CHR ''/'' then acc # dir_prefixes (acc @ [c]) cs
      else dir_prefixes (acc @ [c]) cs)"

definition ancestors :: "string \<Rightarrow> string list" where
  "ancestors p = [] # dir_prefixes [] p"

text \<open>Path resolution: each of these must be a directory that the process may search.\<close>

fun walk :: "fs_process \<Rightarrow> string \<Rightarrow> string list \<Rightarrow> os_error option" where
  "walk w p [] = None"
| "walk w p (d # ds) =
     (if d \<in> dirs w then
        (if d \<in> searchable w \<or> superuser w then walk w p ds
         else Some (PermissionError p))
      else if d \<in> dom (files w) then Some (NotADirectoryError p)
      else Some (FileNotFoundError p))"

text \<open>
  \<^verbatim>\<open>open(p, "w")\<close>. After the resolution of the path: a directory cannot be opened for
  writing; a file that exists is truncated, which takes write permission on the file
  and none on its directory; a file that does not exist is created, which takes write
  permission on the parent directory, and the new file is writable for the process.
\<close>

definition open_w :: "string \<Rightarrow> (os_error, fs_process) action" where
  "open_w p w =
     (case open_fault w of
        Some e \<Rightarrow> (Some e, w\<lparr>trace := trace w @ [FileOpen p]\<rparr>)
      | None \<Rightarrow>
          (case walk w p (ancestors p) of
             Some e \<Rightarrow> (Some e, w\<lparr>trace := trace w @ [FileOpen p]\<rparr>)
           | None \<Rightarrow>
               if p \<in> dirs w then
                 (Some (IsADirectoryError p), w\<lparr>trace := trace w @ [FileOpen p]\<rparr>)
               else
                 (case files w p of
                    Some old \<Rightarrow>
                      if p \<in> writable w \<or> superuser w then
                        (None, w\<lparr>trace := trace w @ [FileOpen p],
                                 files := (files w)(p \<mapsto> [])\<rparr>)
                      else (Some (PermissionError p), w\<lparr>trace := trace w @ [FileOpen p]\<rparr>)
                  | None \<Rightarrow>
                      if dirname p \<in> writable w \<or> superuser w then
                        (None, w\<lparr>trace := trace w @ [FileOpen p],
                                 files := (files w)(p \<mapsto> []),
                                 writable := insert p (writable w)\<rparr>)
                      else (Some (PermissionError p), w\<lparr>trace := trace w @ [FileOpen p]\<rparr>))))"

text \<open>What the file opened at \<open>p\<close> holds; it was emptied or created by the open.\<close>

definition held :: "fs_process \<Rightarrow> string \<Rightarrow> string" where
  "held w p = (case files w p of None \<Rightarrow> [] | Some old \<Rightarrow> old)"

text \<open>\<^verbatim>\<open>f.write(s)\<close> on the file opened at \<open>p\<close>: the text goes after what the file holds;
  when the write fails, only the first characters of the text do.\<close>

definition f_write :: "string \<Rightarrow> string \<Rightarrow> (os_error, fs_process) action" where
  "f_write p s w =
     (case write_fault w of
        None \<Rightarrow>
          (None, w\<lparr>trace := trace w @ [FileWrite p s],
                   files := (files w)(p \<mapsto> held w p @ s)\<rparr>)
      | Some (Fault e k) \<Rightarrow>
          (Some e, w\<lparr>trace := trace w @ [FileWrite p s],
                     files := (files w)(p \<mapsto> held w p @ take k s)\<rparr>))"

text \<open>The close at the end of the \<^verbatim>\<open>with\<close> block flushes what was written; when the
  flush fails, the file keeps only the first characters written since it was opened.\<close>

definition close_file :: "string \<Rightarrow> (os_error, fs_process) action" where
  "close_file p w =
     (case close_fault w of
        None \<Rightarrow> (None, w\<lparr>trace := trace w @ [FileClose p]\<rparr>)
      | Some (Fault e k) \<Rightarrow>
          (Some e, w\<lparr>trace := trace w @ [FileClose p],
                     files := (files w)(p \<mapsto> take k (held w p))\<rparr>))"

text \<open>
  \<^verbatim>\<open>with enter as f: body\<close> when leaving can raise too, as closing a file can: the
  leaving runs after the body whether the body raised or not; an exception of the
  leaving is the one that goes on, otherwise the one of the body does.
\<close>

definition with_exit ::
    "('e, 's) action \<Rightarrow> ('e, 's) action \<Rightarrow> ('e, 's) action \<Rightarrow> ('e, 's) action" where
  "with_exit enter body leave w =
     (case enter w of
        (Some e, w') \<Rightarrow> (Some e, w')
      | (None, w') \<Rightarrow>
          (case body w' of
             (r, w'') \<Rightarrow>
               (case leave w'' of
                  (Some e, w''') \<Rightarrow> (Some e, w''')
                | (None, w''') \<Rightarrow> (r, w'''))))"

text \<open>The \<^verbatim>\<open>with open(path, "w") as f: f.write(text)\<close> statement of the script, for a
  path and a text.\<close>

definition write_file :: "string \<Rightarrow> string \<Rightarrow> (os_error, fs_process) action" where
  "write_file p s = with_exit (open_w p) (f_write p s) (close_file p)"

text \<open>When the open returns: the conditions of \<open>open_w\<close> under which nothing is
  raised.\<close>

definition openable :: "fs_process \<Rightarrow> string \<Rightarrow> bool" where
  "openable w p =
     (open_fault w = None \<and> walk w p (ancestors p) = None \<and> p \<notin> dirs w \<and>
      (if files w p = None then dirname p \<in> writable w \<or> superuser w
       else p \<in> writable w \<or> superuser w))"

definition config_path :: string where
  "config_path = ''tests/plugins/configs/selector-handler-config.html''"

text \<open>The script: its two statements, at module level. An exception of the first one is
  caught nowhere.\<close>

definition fix_plugin_configs :: "(os_error, fs_process) action" where
  "fix_plugin_configs =
     block [write_file config_path selector_config, print ''Fixed selector-handler config'']"

section \<open>The configuration document as a template\<close>

text \<open>
  Modelled from the spec: \<open>ConfigFixture\<close> and \<open>render\<close>. The repository has no
  function that renders a fixture; the script holds the rendered document of one fixture,
  the literal \<open>selector_config\<close>. \<open>render\<close> is the template of section 4.1 of the
  specification laid over that literal: the fixed skeleton is the literal's text, each
  field value stands where the literal has it, nothing is escaped, and the four lines of
  a plugin entry are repeated for each plugin in sequence order.
\<close>

record plugin =
  name :: string
  libraryPath :: string

record ConfigFixture =
  serverRoot :: string
  bindAddress :: string
  bindPort :: nat
  hostName :: string
  hostRoot :: string
  plugins :: "plugin list"

text \<open>An integer in decimal, as \<^verbatim>\<open>str\<close> writes it.\<close>

fun decimal :: "nat \<Rightarrow> string" where
  "decimal n =
     (if n < 10 then [char_of (48 + n)]
      else decimal (n div 10) @ [char_of (48 + n mod 10)])"

declare decimal.simps [simp del]

definition head_lines :: "ConfigFixture \<Rightarrow> string list" where
  \<open>head_lines F =
    [''<'' @ [CHR 0x5C] @ ''!DOCTYPE html>'',
     ''<html lang="en">'',
     ''<head>'',
     ''    <title>Selector Handler Plugin Test Configuration</title>'',
     ''</head>'',
     ''<body>'',
     ''    <h1>Selector Handler Plugin Test Configuration</h1>'',
     ''    '',
     ''    <table itemref="host-localhost" itemscope itemtype="http://rustybeam.net/ServerConfig">'',
     ''        <tbody>'',
     ''            <tr>'',
     ''                <td>Server Root</td>'',
     ''                <td itemprop="serverRoot">'' @ serverRoot F @ ''</td>'',
     ''            </tr>'',
     ''            <tr>'',
     ''                <td>Address</td>'',
     ''                <td itemprop="bindAddress">'' @ bindAddress F @ ''</td>'',
     ''            </tr>'',
     ''            <tr>'',
     ''                <td>Port</td>'',
     ''                <td itemprop="bindPort">'' @ decimal (bindPort F) @ ''</td>'',
     ''            </tr>'',
     ''        </tbody>'',
     ''    </table>'',
     ''    '',
     ''    <table id="host-localhost" itemprop="host" itemscope itemtype="http://rustybeam.net/HostConfig">'',
     ''        <tbody>'',
     ''            <tr>'',
     ''                <td>Host Name</td>'',
     ''                <td itemprop="hostName">'' @ hostName F @ ''</td>'',
     ''            </tr>'',
     ''            <tr>'',
     ''                <td>Host Root</td>'',
     ''                <td itemprop="hostRoot">'' @ hostRoot F @ ''</td>'',
     ''            </tr>'']\<close>

definition plugin_lines :: "plugin \<Rightarrow> string list" where
  \<open>plugin_lines p =
    [''            <tr itemprop="plugin" itemscope itemtype="http://rustybeam.net/Plugin">'',
     ''                <td>'' @ name p @ ''</td>'',
     ''                <td itemprop="library">'' @ libraryPath p @ ''</td>'',
     ''            </tr>'']\<close>

text \<open>The text of one plugin entry: its four lines, each ended by a newline.\<close>

definition plugin_block :: "plugin \<Rightarrow> string" where
  "plugin_block p = concat (map (\<lambda>l. l @ [CHR 0x0A]) (plugin_lines p))"

definition tail_lines :: "string list" where
  \<open>tail_lines =
    [''        </tbody>'',
     ''    </table>'',
     ''</body>'',
     ''</html>'']\<close>

text \<open>
  Modelled from the spec: \<open>render\<close>, absent from the source. The head of the skeleton with
  the field values in place, one entry per plugin in sequence order, the tail.
\<close>

definition render :: "ConfigFixture \<Rightarrow> string" where
  "render F =
     text_of_lines (head_lines F @ concat (map plugin_lines (plugins F)) @ tail_lines)"

text \<open>The fixture whose document the script holds.\<close>

definition selector_fixture :: ConfigFixture where
  "selector_fixture =
     \<lparr>serverRoot = ''tests/plugins/hosts/selector-handler'',
      bindAddress = ''127.0.0.1'',
      bindPort = 3000,
      hostName = ''localhost'',
      hostRoot = ''tests/plugins/hosts/selector-handler'',
      plugins =
        [\<lparr>name = ''Selector Handler'',
          libraryPath = ''file://./plugins/librusty_beam_selector_handler.so''\<rparr>,
         \<lparr>name = ''File Handler'',
          libraryPath = ''file://./plugins/librusty_beam_file_handler.so''\<rparr>]\<rparr>"

text \<open>A fixture is safe to embed when no field value holds the character that opens a
  tag: the guarantee that section 4.1 asks of the caller, since nothing is escaped.\<close>

definition plain :: "string \<Rightarrow> bool" where
  "plain v = (CHR ''<'' \<notin> set v)"

definition safe :: "ConfigFixture \<Rightarrow> bool" where
  "safe F =
     (plain (serverRoot F) \<and> plain (bindAddress F) \<and> plain (hostName F) \<and>
      plain (hostRoot F) \<and>
      list_all (\<lambda>p. plain (name p) \<and> plain (libraryPath p)) (plugins F))"

section \<open>Reading a configuration document\<close>

text \<open>
  What the document lists is what a reader of it finds. The reader below looks for the
  markers of the document's own markup: the value of a property is the text of the
  first cell carrying that \<^verbatim>\<open>itemprop\<close>, up to the next tag; a plugin entry starts at
  every occurrence of the row tag with \<^verbatim>\<open>itemprop="plugin"\<close> and consists of the text
  of the first plain cell and of the first \<^verbatim>\<open>library\<close> cell from there on.
\<close>

fun after :: "string \<Rightarrow> string \<Rightarrow> string option" where
  "after m [] = (if m = [] then Some [] else None)"
| "after m (c # cs) =
     (if prefix m (c # cs) then Some (drop (length m) (c # cs)) else after m cs)"

definition cell_text :: "string \<Rightarrow> string" where
  "cell_text s = takeWhile (\<lambda>c. c \<noteq> CHR ''<'') s"

definition itemprop_value :: "string \<Rightarrow> string \<Rightarrow> string option" where
  \<open>itemprop_value prop doc =
     map_option cell_text (after (''<td itemprop="'' @ prop @ ''">'') doc)\<close>

definition row_open :: string where
  \<open>row_open = ''<tr itemprop="plugin" itemscope itemtype="http://rustybeam.net/Plugin">''\<close>

definition read_row :: "string \<Rightarrow> (string \<times> string) option" where
  "read_row r =
     (case after ''<td>'' r of
        None \<Rightarrow> None
      | Some a \<Rightarrow>
          (case itemprop_value ''library'' r of
             None \<Rightarrow> None
           | Some l \<Rightarrow> Some (cell_text a, l)))"

fun plugin_rows :: "string \<Rightarrow> (string \<times> string) list" where
  "plugin_rows [] = []"
| "plugin_rows (c # cs) =
     (if prefix row_open (c # cs)
      then (case read_row (c # cs) of None \<Rightarrow> [] | Some r \<Rightarrow> [r]) @ plugin_rows cs
      else plugin_rows cs)"

text \<open>A world in which the script can write: the directories of the path exist and
  can be searched, the target directory is writable, the file is not there yet, the
  process is an ordinary user and the device works.\<close>

definition ready :: fs_process where
  "ready =
     \<lparr>trace = [],
      dirs = {[], ''tests'', ''tests/plugins'', ''tests/plugins/configs''},
      files = Map.empty,
      searchable = {[], ''tests'', ''tests/plugins'', ''tests/plugins/configs''},
      writable = {''tests/plugins/configs''},
      superuser = False,
      open_fault = None, write_fault = None, close_fault = None\<rparr>"

text \<open>The same world with the file already there, writable and holding something else.\<close>

definition stale :: fs_process where
  "stale =
     ready\<lparr>files := [''tests/plugins/configs/selector-handler-config.html'' \<mapsto> ''stale''],
           writable := {''tests/plugins/configs'',
             ''tests/plugins/configs/selector-handler-config.html''}\<rparr>"

text \<open>A world in which the target directory is not writable, while the file is there
  and is writable.\<close>

definition locked_dir :: fs_process where
  "locked_dir =
     ready\<lparr>files := [''tests/plugins/configs/selector-handler-config.html'' \<mapsto> ''stale''],
           writable := {''tests/plugins/configs/selector-handler-config.html''}\<rparr>"

text \<open>A world in which the device is full: the flush at close fails with nothing
  written.\<close>

definition disk_full :: fs_process where
  "disk_full = ready\<lparr>close_fault := Some (Fault (OSError ''No space left on device'') 0)\<rparr>"


section \<open>SmokeTester: the five ways through the connection scope\<close>

lemmas session_defs = session_def with_scope_def await_def print_def ws_close_def

lemma session_handshake_raises:
  "handshake net = Some e \<Longrightarrow>
   session net \<lparr>trace = []\<rparr> = (Some e, \<lparr>trace = [WsConnect uri]\<rparr>)"
  by (simp add: session_defs)

lemma session_first_sleep_raises:
  "handshake net = None \<Longrightarrow> first_sleep net = Some e \<Longrightarrow>
   session net \<lparr>trace = []\<rparr> =
     (Some e, \<lparr>trace = [WsConnect uri, Print ''WebSocket connected successfully!'',
        Sleep 1, WsClose]\<rparr>)"
  by (simp add: session_defs)

lemma session_send_raises:
  "handshake net = None \<Longrightarrow> first_sleep net = None \<Longrightarrow> send_frame net = Some e \<Longrightarrow>
   session net \<lparr>trace = []\<rparr> =
     (Some e, \<lparr>trace = [WsConnect uri, Print ''WebSocket connected successfully!'',
        Sleep 1, WsSend ''Hello WebSocket'', WsClose]\<rparr>)"
  by (simp add: session_defs)

lemma session_second_sleep_raises:
  "handshake net = None \<Longrightarrow> first_sleep net = None \<Longrightarrow> send_frame net = None \<Longrightarrow>
   second_sleep net = Some e \<Longrightarrow>
   session net \<lparr>trace = []\<rparr> =
     (Some e, \<lparr>trace = [WsConnect uri, Print ''WebSocket connected successfully!'',
        Sleep 1, WsSend ''Hello WebSocket'', Sleep 1, WsClose]\<rparr>)"
  by (simp add: session_defs)

lemma session_returns:
  "handshake net = None \<Longrightarrow> first_sleep net = None \<Longrightarrow> send_frame net = None \<Longrightarrow>
   second_sleep net = None \<Longrightarrow>
   session net \<lparr>trace = []\<rparr> =
     (None, \<lparr>trace = [WsConnect uri, Print ''WebSocket connected successfully!'',
        Sleep 1, WsSend ''Hello WebSocket'', Sleep 1,
        Print ''WebSocket connection stable - no crashes!'', WsClose]\<rparr>)"
  by (simp add: session_defs)

text \<open>What the handler and the interpreter make of the scope's result.\<close>

lemma main_of_session:
  assumes "session net \<lparr>trace = []\<rparr> = (r, w)"
  shows "main net =
    (case r of
       None \<Rightarrow> (trace w, Exited 0)
     | Some (Error m) \<Rightarrow> (trace w @ [Print (''Error: '' @ m)], Exited 1)
     | Some (Interrupt m) \<Rightarrow> (trace w, Uncaught (Interrupt m))
     | Some (SystemExit n) \<Rightarrow> (trace w, Exited n))"
  using assms
  by (simp add: main_def test_websocket_def try_except_Exception_def print_def sys_exit_def
      split: option.split py_exception.split)

lemma main_trace:
  "\<exists>ps. fst (main net) = trace (snd (session net \<lparr>trace = []\<rparr>)) @ map Print ps"
proof -
  obtain r w where s: "session net \<lparr>trace = []\<rparr> = (r, w)"
    by (cases "session net \<lparr>trace = []\<rparr>")
  show ?thesis
  proof (cases r)
    case None
    then show ?thesis using main_of_session [OF s] s by (intro exI [of _ "[]"]) simp
  next
    case (Some e)
    then show ?thesis using main_of_session [OF s] s
      by (cases e) (auto intro: exI [of _ "[]"] exI [of _ "[x]" for x])
  qed
qed

lemma counts_map_Print [simp]:
  "opens (map Print ps) = 0" "closes (map Print ps) = 0" "sends (map Print ps) = 0"
  by (induction ps) (simp_all add: opens_def closes_def sends_def)

lemma counts_append [simp]:
  "opens (xs @ ys) = opens xs + opens ys"
  "closes (xs @ ys) = closes xs + closes ys"
  "sends (xs @ ys) = sends xs + sends ys"
  by (simp_all add: opens_def closes_def sends_def)

lemma counts_Cons [simp]:
  "opens (WsConnect u # xs) = Suc (opens xs)"
  "closes (WsConnect u # xs) = closes xs"
  "sends (WsConnect u # xs) = sends xs"
  "opens (WsClose # xs) = opens xs"
  "closes (WsClose # xs) = Suc (closes xs)"
  "sends (WsClose # xs) = sends xs"
  "opens [] = 0" "closes [] = 0" "sends [] = 0"
  by (simp_all add: opens_def closes_def sends_def)

text \<open>Once the handshake has succeeded, the scope's trace is the connect, a body that
  neither opens nor closes anything, and one close at the very end.\<close>

lemma session_shape:
  assumes "handshake net = None"
  shows "\<exists>body. snd (session net \<lparr>trace = []\<rparr>) =
      \<lparr>trace = WsConnect uri # body @ [WsClose]\<rparr> \<and>
    opens body = 0 \<and> closes body = 0 \<and> sends body \<le> 1"
proof (cases "first_sleep net")
  case (Some e)
  show ?thesis
    unfolding session_first_sleep_raises [OF assms Some]
    by (rule exI [of _ "[Print ''WebSocket connected successfully!'', Sleep 1]"])
      (simp add: opens_def closes_def sends_def)
next
  case s1: None
  show ?thesis
  proof (cases "send_frame net")
    case (Some e)
    show ?thesis
      unfolding session_send_raises [OF assms s1 Some]
      by (rule exI [of _ "[Print ''WebSocket connected successfully!'', Sleep 1,
            WsSend ''Hello WebSocket'']"])
        (simp add: opens_def closes_def sends_def)
  next
    case s2: None
    show ?thesis
    proof (cases "second_sleep net")
      case (Some e)
      show ?thesis
        unfolding session_second_sleep_raises [OF assms s1 s2 Some]
        by (rule exI [of _ "[Print ''WebSocket connected successfully!'', Sleep 1,
              WsSend ''Hello WebSocket'', Sleep 1]"])
          (simp add: opens_def closes_def sends_def)
    next
      case s3: None
      show ?thesis
        unfolding session_returns [OF assms s1 s2 s3]
        by (rule exI [of _ "[Print ''WebSocket connected successfully!'', Sleep 1,
              WsSend ''Hello WebSocket'', Sleep 1,
              Print ''WebSocket connection stable - no crashes!'']"])
          (simp add: opens_def closes_def sends_def)
    qed
  qed
qed

section \<open>SmokeTester: the claims\<close>

text \<open>What the connection scope has done when one of the four calls raises.\<close>

lemma session_raised:
  assumes "first_raised net = Some e"
  shows "\<exists>w. session net \<lparr>trace = []\<rparr> = (Some e, w) \<and>
    printed (trace w) =
      (if handshake net = None then [''WebSocket connected successfully!''] else []) \<and>
    opens (trace w) = 1 \<and> sends (trace w) \<le> 1"
proof (cases "handshake net")
  case (Some x)
  then have "x = e" using assms by (simp add: first_raised_def)
  with session_handshake_raises [OF Some] Some show ?thesis
    by (simp add: printed_def opens_def sends_def)
next
  case h: None
  show ?thesis
  proof (cases "first_sleep net")
    case (Some x)
    then have "x = e" using assms h by (simp add: first_raised_def)
    with session_first_sleep_raises [OF h Some] h show ?thesis
      by (simp add: printed_def opens_def sends_def)
  next
    case s1: None
    show ?thesis
    proof (cases "send_frame net")
      case (Some x)
      then have "x = e" using assms h s1 by (simp add: first_raised_def)
      with session_send_raises [OF h s1 Some] h show ?thesis
        by (simp add: printed_def opens_def sends_def)
    next
      case s2: None
      then have s3: "second_sleep net = Some e"
        using assms h s1 by (simp add: first_raised_def)
      with session_second_sleep_raises [OF h s1 s2 s3] h show ?thesis
        by (simp add: printed_def opens_def sends_def)
    qed
  qed
qed

lemma printed_append [simp]: "printed (xs @ ys) = printed xs @ printed ys"
  by (simp add: printed_def)

text \<open>
  C1, as the script has it. Whenever the handshake, the send or one of the two waits
  raises an exception that is an instance of \<^verbatim>\<open>Exception\<close>, with message \<open>m\<close>, the
  last thing the run does is print the diagnostic \<open>Error: m\<close>, and the process ends with
  a non-zero exit status. Nothing is retried (one handshake, at most one send), and the
  run does not report success: the line that closes a successful run is not printed, and
  the only other line printed is the notice, from before the failure, that the handshake
  had succeeded. An exception that derives from \<^verbatim>\<open>BaseException\<close> only is not caught:
  the script prints no diagnostic, and the exception leaves it.
\<close>

theorem smoke_exception_reported:
  "(first_raised net = Some (Error m) \<longrightarrow>
      (\<exists>tr. fst (main net) = tr @ [Print (''Error: '' @ m)]) \<and>
      (\<exists>n. snd (main net) = Exited n \<and> n \<noteq> 0) \<and>
      opens (fst (main net)) = 1 \<and> sends (fst (main net)) \<le> 1 \<and>
      printed (fst (main net)) =
        (if handshake net = None then [''WebSocket connected successfully!''] else []) @
        [''Error: '' @ m]) \<and>
   (first_raised net = Some (Interrupt m) \<longrightarrow>
      snd (main net) = Uncaught (Interrupt m) \<and>
      printed (fst (main net)) =
        (if handshake net = None then [''WebSocket connected successfully!''] else []))"
proof (intro conjI impI)
  assume "first_raised net = Some (Error m)"
  from session_raised [OF this] obtain w where
    w: "session net \<lparr>trace = []\<rparr> = (Some (Error m), w)"
      "printed (trace w) =
        (if handshake net = None then [''WebSocket connected successfully!''] else [])"
      "opens (trace w) = 1" "sends (trace w) \<le> 1" by blast
  from main_of_session [OF w(1)]
  have m: "main net = (trace w @ [Print (''Error: '' @ m)], Exited 1)" by simp
  from m show "\<exists>tr. fst (main net) = tr @ [Print (''Error: '' @ m)]" by simp
  from m show "\<exists>n. snd (main net) = Exited n \<and> n \<noteq> 0" by simp
  from m w(3) show "opens (fst (main net)) = 1" by (simp add: opens_def)
  from m w(4) show "sends (fst (main net)) \<le> 1" by (simp add: sends_def)
  from m w(2) show "printed (fst (main net)) =
      (if handshake net = None then [''WebSocket connected successfully!''] else []) @
      [''Error: '' @ m]"
    by (simp add: printed_def)
next
  assume "first_raised net = Some (Interrupt m)"
  from session_raised [OF this] obtain w where
    w: "session net \<lparr>trace = []\<rparr> = (Some (Interrupt m), w)"
      "printed (trace w) =
        (if handshake net = None then [''WebSocket connected successfully!''] else [])"
    by blast
  from main_of_session [OF w(1)]
  have m: "main net = (trace w, Uncaught (Interrupt m))" by simp
  from m show "snd (main net) = Uncaught (Interrupt m)" by simp
  from m w(2) show "printed (fst (main net)) =
      (if handshake net = None then [''WebSocket connected successfully!''] else [])"
    by simp
qed

theorem smoke_exception_reported_witness:
  "first_raised (quiet\<lparr>send_frame := Some (Error ''connection reset'')\<rparr>) =
     Some (Error ''connection reset'') \<and>
   printed (fst (main (quiet\<lparr>send_frame := Some (Error ''connection reset'')\<rparr>))) =
     [''WebSocket connected successfully!'', ''Error: connection reset''] \<and>
   (\<exists>n. snd (main (quiet\<lparr>send_frame := Some (Error ''connection reset'')\<rparr>)) = Exited n \<and>
     n \<noteq> 0) \<and>
   first_raised (quiet\<lparr>second_sleep := Some (Interrupt ''cancelled'')\<rparr>) =
     Some (Interrupt ''cancelled'') \<and>
   snd (main (quiet\<lparr>second_sleep := Some (Interrupt ''cancelled'')\<rparr>)) =
     Uncaught (Interrupt ''cancelled'')"
proof -
  have h: "first_raised (quiet\<lparr>send_frame := Some (Error ''connection reset'')\<rparr>) =
      Some (Error ''connection reset'')"
    by (simp add: first_raised_def quiet_def)
  have i: "first_raised (quiet\<lparr>second_sleep := Some (Interrupt ''cancelled'')\<rparr>) =
      Some (Interrupt ''cancelled'')"
    by (simp add: first_raised_def quiet_def)
  from smoke_exception_reported
    [of "quiet\<lparr>send_frame := Some (Error ''connection reset'')\<rparr>" "''connection reset''"] h
  have "printed (fst (main (quiet\<lparr>send_frame := Some (Error ''connection reset'')\<rparr>))) =
      (if handshake (quiet\<lparr>send_frame := Some (Error ''connection reset'')\<rparr>) = None
       then [''WebSocket connected successfully!''] else []) @
      [''Error: '' @ ''connection reset'']"
    and "\<exists>n. snd (main (quiet\<lparr>send_frame := Some (Error ''connection reset'')\<rparr>)) = Exited n \<and>
      n \<noteq> 0"
    by blast+
  moreover from smoke_exception_reported
    [of "quiet\<lparr>second_sleep := Some (Interrupt ''cancelled'')\<rparr>" "''cancelled''"] i
  have "snd (main (quiet\<lparr>second_sleep := Some (Interrupt ''cancelled'')\<rparr>)) =
      Uncaught (Interrupt ''cancelled'')"
    by blast
  ultimately show ?thesis using h i by (simp add: quiet_def)
qed

text \<open>
  C1, as the claim states it, fails. A wait that is cancelled raises
  \<^verbatim>\<open>asyncio.CancelledError\<close>, which is no instance of \<^verbatim>\<open>Exception\<close>: the run prints
  no diagnostic and does not end through \<^verbatim>\<open>sys.exit\<close>. And a run that fails at the
  send has by then reported that the connection succeeded.
\<close>

theorem smoke_exception_reported_counterexample:
  "main (quiet\<lparr>first_sleep := Some (Interrupt [])\<rparr>) =
     ([WsConnect uri, Print ''WebSocket connected successfully!'', Sleep 1, WsClose],
      Uncaught (Interrupt [])) \<and>
   main (quiet\<lparr>send_frame := Some (Error ''reset'')\<rparr>) =
     ([WsConnect uri, Print ''WebSocket connected successfully!'', Sleep 1,
       WsSend ''Hello WebSocket'', WsClose, Print ''Error: reset''],
      Exited 1)"
proof -
  have a: "handshake (quiet\<lparr>first_sleep := Some (Interrupt [])\<rparr>) = None"
    "first_sleep (quiet\<lparr>first_sleep := Some (Interrupt [])\<rparr>) = Some (Interrupt [])"
    by (simp_all add: quiet_def)
  have b: "handshake (quiet\<lparr>send_frame := Some (Error ''reset'')\<rparr>) = None"
    "first_sleep (quiet\<lparr>send_frame := Some (Error ''reset'')\<rparr>) = None"
    "send_frame (quiet\<lparr>send_frame := Some (Error ''reset'')\<rparr>) = Some (Error ''reset'')"
    by (simp_all add: quiet_def)
  from main_of_session [OF session_first_sleep_raises [OF a]]
    main_of_session [OF session_send_raises [OF b]]
  show ?thesis by simp
qed

text \<open>
  C2. When the endpoint accepts the handshake and none of the calls raises, the run
  connects to \<^verbatim>\<open>ws://localhost:3000/demos/todo/\<close>, waits 1 s, sends
  \<^verbatim>\<open>Hello WebSocket\<close>, waits 1 s and closes, in this order; \<open>test_websocket\<close> returns
  without raising (the Success outcome) and the process exits with status 0.
\<close>

theorem smoke_success_run:
  assumes "handshake net = None" and "first_sleep net = None"
    and "send_frame net = None" and "second_sleep net = None"
  shows "uri = ''ws://localhost:3000/demos/todo/'' \<and>
    network_events (fst (main net)) =
      [WsConnect uri, Sleep 1, WsSend ''Hello WebSocket'', Sleep 1, WsClose] \<and>
    test_websocket net \<lparr>trace = []\<rparr> = (None, \<lparr>trace = fst (main net)\<rparr>) \<and>
    snd (main net) = Exited 0"
  using main_of_session [OF session_returns [OF assms]] session_returns [OF assms]
  by (simp add: network_events_def uri_def test_websocket_def try_except_Exception_def)

theorem smoke_success_run_witness:
  "network_events (fst (main quiet)) =
     [WsConnect uri, Sleep 1, WsSend ''Hello WebSocket'', Sleep 1, WsClose] \<and>
   snd (main quiet) = Exited 0"
  using smoke_success_run [of quiet] by (simp add: quiet_def)

text \<open>
  C3. In every run, whatever the network does and however the run ends, exactly one
  connection is opened and at most one close happens. Once the handshake has succeeded
  the connection is closed exactly once, after everything else done on it (only printed
  lines can follow the close), also when the send or a wait raises; when the handshake
  fails there is nothing to close and nothing is closed.
\<close>

theorem connection_released_once:
  "opens (fst (main net)) = 1 \<and> closes (fst (main net)) \<le> 1 \<and>
   (handshake net = None \<longrightarrow>
      closes (fst (main net)) = 1 \<and>
      (\<exists>body ps. fst (main net) = WsConnect uri # body @ WsClose # map Print ps)) \<and>
   (handshake net \<noteq> None \<longrightarrow> closes (fst (main net)) = 0)"
proof (cases "handshake net")
  case None
  from session_shape [OF None] obtain body where
    b: "snd (session net \<lparr>trace = []\<rparr>) = \<lparr>trace = WsConnect uri # body @ [WsClose]\<rparr>"
      "opens body = 0" "closes body = 0" by blast
  from main_trace [of net] obtain ps where
    "fst (main net) = trace (snd (session net \<lparr>trace = []\<rparr>)) @ map Print ps" by blast
  then have "fst (main net) = WsConnect uri # body @ WsClose # map Print ps"
    using b(1) by simp
  then show ?thesis using None b(2,3) by auto
next
  case (Some e)
  from main_trace [of net] obtain ps where
    "fst (main net) = trace (snd (session net \<lparr>trace = []\<rparr>)) @ map Print ps" by blast
  then have "fst (main net) = [WsConnect uri] @ map Print ps"
    using session_handshake_raises [OF Some] by simp
  then show ?thesis using Some by simp
qed

theorem connection_released_once_witness:
  "handshake (quiet\<lparr>send_frame := Some (Interrupt ''cancelled'')\<rparr>) = None \<and>
   opens (fst (main (quiet\<lparr>send_frame := Some (Interrupt ''cancelled'')\<rparr>))) = 1 \<and>
   closes (fst (main (quiet\<lparr>send_frame := Some (Interrupt ''cancelled'')\<rparr>))) = 1"
  using connection_released_once [of "quiet\<lparr>send_frame := Some (Interrupt ''cancelled'')\<rparr>"]
  by (simp add: quiet_def)

text \<open>
  C10. In every run in which the handler catches an exception, that is, the block under
  \<^verbatim>\<open>try\<close> raises an instance of \<^verbatim>\<open>Exception\<close> with message \<open>m\<close>, the last thing the
  process does is print \<open>Error: m\<close>, and its exit status is exactly 1.
\<close>

theorem smoke_failure_exit_one:
  assumes "session net \<lparr>trace = []\<rparr> = (Some (Error m), w)"
  shows "main net = (trace w @ [Print (''Error: '' @ m)], Exited 1)"
  using main_of_session [OF assms] by simp

theorem smoke_failure_exit_one_witness:
  "session (quiet\<lparr>handshake := Some (Error ''refused'')\<rparr>) \<lparr>trace = []\<rparr> =
     (Some (Error ''refused''), \<lparr>trace = [WsConnect uri]\<rparr>) \<and>
   main (quiet\<lparr>handshake := Some (Error ''refused'')\<rparr>) =
     ([WsConnect uri, Print ''Error: refused''], Exited 1)"
proof -
  have h: "session (quiet\<lparr>handshake := Some (Error ''refused'')\<rparr>) \<lparr>trace = []\<rparr> =
     (Some (Error ''refused''), \<lparr>trace = [WsConnect uri]\<rparr>)"
    by (simp add: session_defs quiet_def)
  from smoke_failure_exit_one [OF h] h show ?thesis by simp
qed

section \<open>FixtureWriter: the ways through the write\<close>

lemma walk_None:
  "walk w p ds = None \<longleftrightarrow> (\<forall>d\<in>set ds. d \<in> dirs w \<and> (d \<in> searchable w \<or> superuser w))"
  by (induction ds) auto

lemma open_w_returns:
  assumes "openable w p"
  shows "open_w p w =
    (None, w\<lparr>trace := trace w @ [FileOpen p], files := (files w)(p \<mapsto> []),
             writable := (if files w p = None then insert p (writable w) else writable w)\<rparr>)"
proof (cases "files w p")
  case None
  with assms show ?thesis by (simp add: open_w_def openable_def)
next
  case (Some old)
  with assms show ?thesis by (simp add: open_w_def openable_def)
qed

lemma open_w_raises:
  assumes "\<not> openable w p"
  shows "\<exists>e. open_w p w = (Some e, w\<lparr>trace := trace w @ [FileOpen p]\<rparr>)"
proof (cases "open_fault w")
  case (Some e)
  then show ?thesis by (simp add: open_w_def)
next
  case f: None
  show ?thesis
  proof (cases "walk w p (ancestors p)")
    case (Some e)
    with f show ?thesis by (simp add: open_w_def)
  next
    case r: None
    show ?thesis
    proof (cases "files w p")
      case None
      with f r assms show ?thesis by (auto simp: open_w_def openable_def)
    next
      case (Some old)
      with f r assms show ?thesis by (auto simp: open_w_def openable_def)
    qed
  qed
qed

lemma open_w_trace: "trace (snd (open_w p w)) = trace w @ [FileOpen p]"
proof (cases "openable w p")
  case True
  from open_w_returns [OF this] show ?thesis by simp
next
  case False
  from open_w_raises [OF this] show ?thesis by auto
qed

lemma f_write_trace: "trace (snd (f_write p s w)) = trace w @ [FileWrite p s]"
  by (simp add: f_write_def split: option.split fault.split)

lemma close_file_trace: "trace (snd (close_file p w)) = trace w @ [FileClose p]"
  by (simp add: close_file_def split: option.split fault.split)

lemma f_write_faults [simp]:
  "write_fault (snd (f_write p s w)) = write_fault w"
  "close_fault (snd (f_write p s w)) = close_fault w"
  by (simp_all add: f_write_def split: option.split fault.split)

lemma write_file_refused:
  assumes "\<not> openable w p"
  shows "write_file p s w = open_w p w"
  using open_w_raises [OF assms] by (auto simp: write_file_def with_exit_def)

lemma write_file_succeeds:
  assumes "openable w p" and "write_fault w = None" and "close_fault w = None"
  shows "write_file p s w =
    (None, w\<lparr>trace := trace w @ [FileOpen p, FileWrite p s, FileClose p],
             files := (files w)(p \<mapsto> s),
             writable := (if files w p = None then insert p (writable w) else writable w)\<rparr>)"
  using assms(2,3)
  by (simp add: write_file_def with_exit_def open_w_returns [OF assms(1)] f_write_def
      close_file_def held_def)

lemma write_file_faulty:
  assumes "openable w p" and "write_fault w \<noteq> None \<or> close_fault w \<noteq> None"
  shows "fst (write_file p s w) \<noteq> None \<and>
    trace (snd (write_file p s w)) = trace w @ [FileOpen p, FileWrite p s, FileClose p]"
  using assms(2)
  by (auto simp: write_file_def with_exit_def open_w_returns [OF assms(1)] f_write_def
      close_file_def split: option.split fault.split)

lemma write_file_returned:
  assumes "write_file p s w = (None, w')"
  shows "openable w p \<and> write_fault w = None \<and> close_fault w = None"
proof (intro conjI)
  show o: "openable w p"
  proof (rule ccontr)
    assume n: "\<not> openable w p"
    from open_w_raises [OF n] write_file_refused [OF n, of s] assms show False by auto
  qed
  have "\<not> (write_fault w \<noteq> None \<or> close_fault w \<noteq> None)"
  proof
    assume "write_fault w \<noteq> None \<or> close_fault w \<noteq> None"
    from write_file_faulty [OF o this, of s] assms show False by simp
  qed
  then show "write_fault w = None" and "close_fault w = None" by simp_all
qed

text \<open>However the write ends, the file was opened once, and written and closed once if
  the open returned.\<close>

lemma write_file_trace:
  "trace (snd (write_file p s w)) = trace w @ [FileOpen p] \<and> fst (write_file p s w) \<noteq> None \<or>
   trace (snd (write_file p s w)) = trace w @ [FileOpen p, FileWrite p s, FileClose p]"
proof (cases "openable w p")
  case False
  from open_w_raises [OF False] write_file_refused [OF False, of s] show ?thesis by auto
next
  case o: True
  show ?thesis
  proof (cases "write_fault w = None \<and> close_fault w = None")
    case True
    then show ?thesis using write_file_succeeds [OF o, of s] by simp
  next
    case False
    then have "write_fault w \<noteq> None \<or> close_fault w \<noteq> None" by simp
    from write_file_faulty [OF o this, of s] show ?thesis by simp
  qed
qed

lemma dirname_config_path: "dirname config_path = ''tests/plugins/configs''"
  by (simp add: dirname_def config_path_def)

lemma ancestors_config_path:
  "ancestors config_path = [[], ''tests'', ''tests/plugins'', ''tests/plugins/configs'']"
  by (simp add: ancestors_def config_path_def)

lemma script_returns:
  assumes "fst (write_file config_path selector_config w) = None"
  shows "fix_plugin_configs w =
    (None, (snd (write_file config_path selector_config w))
      \<lparr>trace := trace (snd (write_file config_path selector_config w)) @
         [Print ''Fixed selector-handler config'']\<rparr>)"
  using assms
  by (cases "write_file config_path selector_config w")
    (simp add: fix_plugin_configs_def print_def)

lemma script_raises:
  assumes "fst (write_file config_path selector_config w) \<noteq> None"
  shows "fix_plugin_configs w = write_file config_path selector_config w"
  using assms
  by (cases "write_file config_path selector_config w")
    (auto simp: fix_plugin_configs_def)

lemma openable_ready: "openable ready config_path"
  by (simp add: openable_def ready_def ancestors_config_path dirname_config_path)
    (simp add: config_path_def)

lemma openable_stale: "openable stale config_path"
  by (simp add: openable_def stale_def ready_def ancestors_config_path)
    (simp add: config_path_def)

lemma openable_locked_dir: "openable locked_dir config_path"
  by (simp add: openable_def locked_dir_def ready_def ancestors_config_path)
    (simp add: config_path_def)

section \<open>FixtureWriter: the claims on writing\<close>

text \<open>
  C7. Writing a text to a path and then writing the same text to the same path again
  leaves the file as the first write left it: after a write that returned, the file
  holds exactly the text, whatever it held before; the second write returns too and
  changes no file.
\<close>

theorem write_twice_same_content:
  assumes "write_file p s w = (None, w1)"
  shows "files w1 p = Some s \<and>
    (\<exists>w2. write_file p s w1 = (None, w2) \<and> files w2 = files w1)"
proof -
  from write_file_returned [OF assms]
  have o: "openable w p" and f: "write_fault w = None" "close_fault w = None" by simp_all
  from write_file_succeeds [OF o f, of s] assms
  have w1: "w1 = w\<lparr>trace := trace w @ [FileOpen p, FileWrite p s, FileClose p],
      files := (files w)(p \<mapsto> s),
      writable := (if files w p = None then insert p (writable w) else writable w)\<rparr>"
    by simp
  have c: "files w1 p = Some s" by (simp add: w1)
  have "walk w1 p (ancestors p) = None"
    using o by (simp add: openable_def walk_None w1)
  moreover have "p \<in> writable w1 \<or> superuser w1"
    using o by (auto simp: openable_def w1 split: if_splits)
  ultimately have o1: "openable w1 p"
    using o c by (simp add: openable_def) (simp add: w1)
  have f1: "write_fault w1 = None" "close_fault w1 = None" using f by (simp_all add: w1)
  have "(files w1)(p \<mapsto> s) = files w1" using c by (rule map_upd_triv)
  with write_file_succeeds [OF o1 f1, of s] c show ?thesis by simp
qed

theorem write_twice_same_content_witness:
  "files stale config_path = Some ''stale'' \<and>
   write_file config_path selector_config stale =
     (None, snd (write_file config_path selector_config stale)) \<and>
   files (snd (write_file config_path selector_config stale)) config_path =
     Some selector_config \<and>
   (\<exists>w2. write_file config_path selector_config
       (snd (write_file config_path selector_config stale)) = (None, w2) \<and>
     files w2 = files (snd (write_file config_path selector_config stale)))"
proof -
  have f: "write_fault stale = None" "close_fault stale = None"
    by (simp_all add: stale_def ready_def)
  have h: "write_file config_path selector_config stale =
      (None, snd (write_file config_path selector_config stale))"
    using write_file_succeeds [OF openable_stale f, of selector_config] by simp
  have "files stale config_path = Some ''stale''"
    by (simp add: stale_def config_path_def)
  with write_twice_same_content [OF h] h show ?thesis by simp
qed

text \<open>
  C8, as the platform has it. Opening the output path fails whenever its parent
  directory does not exist, and whenever the parent directory is not writable while the
  file has yet to be created and the process is not the superuser. Whenever the open
  raises, for these or any other reason, the script ends with the very exception that
  \<^verbatim>\<open>open\<close> raised: the file was opened once, nothing was written or printed, and no
  file changed.
\<close>

theorem write_failure_surfaces:
  "((dirname config_path \<notin> dirs w \<or>
      dirname config_path \<notin> writable w \<and> files w config_path = None \<and> \<not> superuser w) \<longrightarrow>
     fst (open_w config_path w) \<noteq> None) \<and>
   (\<forall>err. fst (open_w config_path w) = Some err \<longrightarrow>
     open_w config_path w = (Some err, w\<lparr>trace := trace w @ [FileOpen config_path]\<rparr>) \<and>
     fix_plugin_configs w = (Some err, w\<lparr>trace := trace w @ [FileOpen config_path]\<rparr>))"
proof (intro conjI impI allI)
  assume a: "dirname config_path \<notin> dirs w \<or>
      dirname config_path \<notin> writable w \<and> files w config_path = None \<and> \<not> superuser w"
  have "\<not> openable w config_path"
  proof
    assume o: "openable w config_path"
    then have "walk w config_path (ancestors config_path) = None"
      by (simp add: openable_def)
    then have "\<forall>d\<in>set (ancestors config_path).
        d \<in> dirs w \<and> (d \<in> searchable w \<or> superuser w)"
      unfolding walk_None .
    then have "dirname config_path \<in> dirs w"
      by (simp add: ancestors_config_path dirname_config_path)
    with a o show False by (simp add: openable_def)
  qed
  from open_w_raises [OF this] show "fst (open_w config_path w) \<noteq> None" by auto
next
  fix err
  assume e: "fst (open_w config_path w) = Some err"
  have n: "\<not> openable w config_path"
  proof
    assume "openable w config_path"
    from open_w_returns [OF this] e show False by simp
  qed
  from open_w_raises [OF n] e
  show r: "open_w config_path w = (Some err, w\<lparr>trace := trace w @ [FileOpen config_path]\<rparr>)"
    by auto
  from write_file_refused [OF n, of selector_config] r
  have "write_file config_path selector_config w =
      (Some err, w\<lparr>trace := trace w @ [FileOpen config_path]\<rparr>)" by simp
  then show "fix_plugin_configs w = (Some err, w\<lparr>trace := trace w @ [FileOpen config_path]\<rparr>)"
    by (simp add: fix_plugin_configs_def)
qed

theorem write_failure_surfaces_witness:
  "dirname config_path \<notin> writable (ready\<lparr>writable := {}\<rparr>) \<and>
   files (ready\<lparr>writable := {}\<rparr>) config_path = None \<and>
   \<not> superuser (ready\<lparr>writable := {}\<rparr>) \<and>
   fix_plugin_configs (ready\<lparr>writable := {}\<rparr>) =
     (Some (PermissionError config_path),
      ready\<lparr>writable := {}, trace := [FileOpen config_path]\<rparr>)"
proof -
  have a: "dirname config_path \<notin> writable (ready\<lparr>writable := {}\<rparr>) \<and>
      files (ready\<lparr>writable := {}\<rparr>) config_path = None \<and>
      \<not> superuser (ready\<lparr>writable := {}\<rparr>)"
    by (simp add: ready_def)
  have e: "fst (open_w config_path (ready\<lparr>writable := {}\<rparr>)) =
      Some (PermissionError config_path)"
    by (simp add: open_w_def ready_def ancestors_config_path)
      (simp add: config_path_def)
  from write_failure_surfaces [of "ready\<lparr>writable := {}\<rparr>"] e
  have "fix_plugin_configs (ready\<lparr>writable := {}\<rparr>) =
      (Some (PermissionError config_path),
       ready\<lparr>writable := {}, trace := trace (ready\<lparr>writable := {}\<rparr>) @ [FileOpen config_path]\<rparr>)"
    by simp
  with a show ?thesis by (simp add: ready_def)
qed

text \<open>
  C8, as the claim states it, fails: where the parent directory is not writable but the
  file is there and is writable, the open truncates the file, and the script writes the
  document and reports it.
\<close>

theorem write_failure_counterexample:
  "dirname config_path \<notin> writable locked_dir \<and>
   fst (fix_plugin_configs locked_dir) = None \<and>
   files (snd (fix_plugin_configs locked_dir)) config_path = Some selector_config \<and>
   printed (trace (snd (fix_plugin_configs locked_dir))) = [''Fixed selector-handler config'']"
proof -
  have f: "write_fault locked_dir = None" "close_fault locked_dir = None"
    by (simp_all add: locked_dir_def ready_def)
  from write_file_succeeds [OF openable_locked_dir f, of selector_config]
  have w: "write_file config_path selector_config locked_dir =
    (None, locked_dir\<lparr>trace := trace locked_dir @
        [FileOpen config_path, FileWrite config_path selector_config, FileClose config_path],
      files := (files locked_dir)(config_path \<mapsto> selector_config),
      writable := (if files locked_dir config_path = None
        then insert config_path (writable locked_dir) else writable locked_dir)\<rparr>)" .
  then have "fst (write_file config_path selector_config locked_dir) = None" by simp
  from script_returns [OF this] w
  have "fst (fix_plugin_configs locked_dir) = None \<and>
    files (snd (fix_plugin_configs locked_dir)) config_path = Some selector_config \<and>
    printed (trace (snd (fix_plugin_configs locked_dir))) = [''Fixed selector-handler config'']"
    by (simp add: printed_def) (simp add: locked_dir_def ready_def)
  moreover have "dirname config_path \<notin> writable locked_dir"
    by (simp add: dirname_config_path locked_dir_def ready_def)
  ultimately show ?thesis by simp
qed

text \<open>
  C9, as the script has it. The script reports success only. On a run in which the
  open, the write and the close all return, it opens, writes and closes the file and
  then, as its last action, prints the one line \<^verbatim>\<open>Fixed selector-handler config\<close>. On
  a run in which the open, the write or the close raises, it prints nothing: it ends
  just as the \<^verbatim>\<open>with\<close> statement ended, with the exception that left it, after the
  open alone or after open, write and close.
\<close>

theorem writer_reports_success_only:
  "(fst (fix_plugin_configs w) = None \<longrightarrow>
      fst (write_file config_path selector_config w) = None \<and>
      trace (snd (fix_plugin_configs w)) =
        trace w @ [FileOpen config_path, FileWrite config_path selector_config,
          FileClose config_path, Print ''Fixed selector-handler config'']) \<and>
   (fst (fix_plugin_configs w) \<noteq> None \<longrightarrow>
      fix_plugin_configs w = write_file config_path selector_config w \<and>
      (trace (snd (fix_plugin_configs w)) = trace w @ [FileOpen config_path] \<or>
       trace (snd (fix_plugin_configs w)) =
         trace w @ [FileOpen config_path, FileWrite config_path selector_config,
           FileClose config_path]))"
proof (cases "fst (write_file config_path selector_config w) = None")
  case True
  from write_file_trace [of config_path selector_config w] True
  have "trace (snd (write_file config_path selector_config w)) =
      trace w @ [FileOpen config_path, FileWrite config_path selector_config,
        FileClose config_path]" by simp
  with script_returns [OF True] True show ?thesis by simp
next
  case False
  from script_raises [OF False] False write_file_trace [of config_path selector_config w]
  show ?thesis by auto
qed

theorem writer_reports_success_only_witness:
  "fst (fix_plugin_configs disk_full) \<noteq> None \<and>
   fix_plugin_configs disk_full = write_file config_path selector_config disk_full \<and>
   trace (snd (fix_plugin_configs disk_full)) =
     [FileOpen config_path, FileWrite config_path selector_config, FileClose config_path] \<and>
   fst (fix_plugin_configs stale) = None \<and>
   trace (snd (fix_plugin_configs stale)) =
     [FileOpen config_path, FileWrite config_path selector_config, FileClose config_path,
      Print ''Fixed selector-handler config'']"
proof -
  have o: "openable disk_full config_path"
    using openable_ready by (simp add: openable_def disk_full_def walk_None)
  have "write_fault disk_full \<noteq> None \<or> close_fault disk_full \<noteq> None"
    by (simp add: disk_full_def)
  from write_file_faulty [OF o this, of selector_config]
  have w: "fst (write_file config_path selector_config disk_full) \<noteq> None"
    "trace (snd (write_file config_path selector_config disk_full)) =
      trace disk_full @ [FileOpen config_path, FileWrite config_path selector_config,
        FileClose config_path]" by simp_all
  from script_raises [OF w(1)] w(1)
  have n: "fst (fix_plugin_configs disk_full) \<noteq> None" by simp
  from writer_reports_success_only [of disk_full] n
  have d: "fix_plugin_configs disk_full = write_file config_path selector_config disk_full"
    by blast
  have f: "write_fault stale = None" "close_fault stale = None"
    by (simp_all add: stale_def ready_def)
  from write_file_succeeds [OF openable_stale f, of selector_config]
  have "fst (write_file config_path selector_config stale) = None" by simp
  from script_returns [OF this] have r: "fst (fix_plugin_configs stale) = None" by simp
  with writer_reports_success_only [of stale]
  have "trace (snd (fix_plugin_configs stale)) =
      trace stale @ [FileOpen config_path, FileWrite config_path selector_config,
        FileClose config_path, Print ''Fixed selector-handler config'']"
    by blast
  with n d w(2) r show ?thesis by (simp add: disk_full_def stale_def ready_def)
qed

text \<open>
  C9, as the claim states it, fails: in a world where the write succeeds the script does
  print a line telling the operator so.
\<close>

theorem writer_silent_counterexample:
  "fst (fix_plugin_configs ready) = None \<and>
   printed (trace (snd (fix_plugin_configs ready))) = [''Fixed selector-handler config'']"
proof -
  have f: "write_fault ready = None" "close_fault ready = None"
    by (simp_all add: ready_def)
  from write_file_succeeds [OF openable_ready f, of selector_config]
  have w: "write_file config_path selector_config ready =
    (None, ready\<lparr>trace := trace ready @
        [FileOpen config_path, FileWrite config_path selector_config, FileClose config_path],
      files := (files ready)(config_path \<mapsto> selector_config),
      writable := (if files ready config_path = None
        then insert config_path (writable ready) else writable ready)\<rparr>)" .
  then have "fst (write_file config_path selector_config ready) = None" by simp
  from script_returns [OF this] w show ?thesis
    by (simp add: printed_def) (simp add: ready_def)
qed

section \<open>Lines and text\<close>

lemma text_of_lines_Cons:
  "ls \<noteq> [] \<Longrightarrow> text_of_lines (l # ls) = l @ CHR 0x0A # text_of_lines ls"
  by (cases ls) simp_all

lemma text_of_lines_append:
  "ys \<noteq> [] \<Longrightarrow>
   text_of_lines (xs @ ys) = concat (map (\<lambda>l. l @ [CHR 0x0A]) xs) @ text_of_lines ys"
  by (induction xs) (simp_all add: text_of_lines_Cons)

lemma text_of_lines_split:
  assumes "n < length ls"
  shows "text_of_lines ls =
    concat (map (\<lambda>l. l @ [CHR 0x0A]) (take n ls)) @ text_of_lines (drop n ls)"
proof -
  from assms have "drop n ls \<noteq> []" by simp
  from text_of_lines_append [OF this, of "take n ls"] show ?thesis by simp
qed

section \<open>Text that holds no plugin row\<close>

text \<open>The reader passes over a character that does not open a tag, over a tag that is
  not a table row with attributes, and so over every field value that is plain and
  every line of the head of the skeleton.\<close>

lemma row_open_Cons:
  "\<exists>r. row_open = CHR ''<'' # CHR ''t'' # CHR ''r'' # CHR '' '' # r"
  by (simp add: row_open_def)

lemma skip_char:
  assumes "c \<noteq> CHR ''<''"
  shows "plugin_rows (c # cs) = plugin_rows cs"
proof -
  from row_open_Cons obtain r where
    r: "row_open = CHR ''<'' # CHR ''t'' # CHR ''r'' # CHR '' '' # r" ..
  have "\<not> prefix row_open (c # cs)" unfolding r using assms by simp
  then show ?thesis by (simp only: plugin_rows.simps if_False)
qed

lemma skip_tag:
  assumes "(a, b, d) \<noteq> (CHR ''t'', CHR ''r'', CHR '' '')"
  shows "plugin_rows (CHR ''<'' # a # b # d # cs) = plugin_rows (a # b # d # cs)"
proof -
  from row_open_Cons obtain r where
    r: "row_open = CHR ''<'' # CHR ''t'' # CHR ''r'' # CHR '' '' # r" ..
  have "\<not> prefix row_open (CHR ''<'' # a # b # d # cs)" unfolding r using assms by auto
  then show ?thesis by (simp only: plugin_rows.simps if_False)
qed

lemma plugin_rows_plain: "plain v \<Longrightarrow> plugin_rows (v @ s) = plugin_rows s"
proof (induction v)
  case Nil
  show ?case by simp
next
  case (Cons c v)
  then have "c \<noteq> CHR ''<''" and "plain v" by (auto simp: plain_def)
  with Cons.IH show ?case by (simp add: skip_char del: plugin_rows.simps)
qed

lemma lines_skipped:
  assumes "\<forall>l\<in>set ls. \<forall>s. plugin_rows (l @ CHR 0x0A # s) = plugin_rows s"
  shows "plugin_rows (concat (map (\<lambda>l. l @ [CHR 0x0A]) ls) @ s) = plugin_rows s"
  using assms by (induction ls) (simp_all del: plugin_rows.simps)

lemma plain_decimal: "plain (decimal n)"
proof (induction n rule: decimal.induct)
  case (1 n)
  have d: "k < 10 \<Longrightarrow> char_of (48 + k) \<noteq> CHR ''<''" for k :: nat
  proof
    assume "k < 10" and "char_of (48 + k) = CHR ''<''"
    then have "of_char (char_of (48 + k)) = (of_char (CHR ''<'') :: nat)" by simp
    with \<open>k < 10\<close> show False by (simp add: of_char_of)
  qed
  show ?case
  proof (cases "n < 10")
    case True
    then show ?thesis using d [of n] by (subst decimal.simps) (simp add: plain_def)
  next
    case False
    then show ?thesis using 1 d [of "n mod 10"]
      by (subst decimal.simps) (simp add: plain_def)
  qed
qed

lemma head_skipped:
  assumes "plain (serverRoot F)" and "plain (bindAddress F)" and "plain (hostName F)"
    and "plain (hostRoot F)"
  shows "plugin_rows (concat (map (\<lambda>l. l @ [CHR 0x0A]) (head_lines F)) @ s) = plugin_rows s"
proof (rule lines_skipped)
  show "\<forall>l\<in>set (head_lines F). \<forall>s. plugin_rows (l @ CHR 0x0A # s) = plugin_rows s"
    using assms plain_decimal [of "bindPort F"]
    by (simp add: head_lines_def skip_char skip_tag plugin_rows_plain del: plugin_rows.simps)
qed

section \<open>What the reader finds in a rendered document\<close>

text \<open>From the text of one plugin entry the reader takes the name and the library
  path, and goes on behind it.\<close>

lemma after_plain:
  "plain v \<Longrightarrow> after (CHR ''<'' # m) (v @ c # s) = after (CHR ''<'' # m) (c # s)"
  by (induction v) (auto simp: plain_def)

lemma cell_text_plain: "plain v \<Longrightarrow> cell_text (v @ CHR ''<'' # s) = v"
  by (induction v) (auto simp: plain_def cell_text_def)

lemma row_read:
  assumes "plain (name p)" and "plain (libraryPath p)"
  shows "plugin_rows (concat (map (\<lambda>l. l @ [CHR 0x0A]) (plugin_lines p)) @ s) =
    (name p, libraryPath p) # plugin_rows s"
  using assms
  by (simp add: plugin_lines_def row_open_def read_row_def itemprop_value_def
      plugin_rows_plain after_plain cell_text_plain)

lemma tail_empty: "plugin_rows (text_of_lines tail_lines) = []"
  by (simp add: tail_lines_def skip_char skip_tag del: plugin_rows.simps(2))

lemma rows_read:
  assumes "list_all (\<lambda>p. plain (name p) \<and> plain (libraryPath p)) ps"
  shows "plugin_rows (concat (map (\<lambda>l. l @ [CHR 0x0A]) (concat (map plugin_lines ps))) @ s) =
    map (\<lambda>p. (name p, libraryPath p)) ps @ plugin_rows s"
  using assms
proof (induction ps)
  case Nil
  then show ?case by simp
next
  case (Cons p ps)
  then show ?case using row_read [of p] by (simp del: plugin_rows.simps)
qed

lemma render_text:
  "render F =
     concat (map (\<lambda>l. l @ [CHR 0x0A]) (head_lines F)) @
     concat (map (\<lambda>l. l @ [CHR 0x0A]) (concat (map plugin_lines (plugins F)))) @
     text_of_lines tail_lines"
proof -
  have t: "tail_lines \<noteq> []" by (simp add: tail_lines_def)
  then have "concat (map plugin_lines (plugins F)) @ tail_lines \<noteq> []" by simp
  from text_of_lines_append [OF this] text_of_lines_append [OF t]
  show ?thesis by (simp add: render_def del: text_of_lines.simps)
qed

lemma blocks_text:
  "concat (map (\<lambda>l. l @ [CHR 0x0A]) (concat (map plugin_lines ps))) =
   concat (map plugin_block ps)"
  by (induction ps) (simp_all add: plugin_block_def)

lemma plugin_rows_render:
  assumes "safe F"
  shows "plugin_rows (render F) = map (\<lambda>p. (name p, libraryPath p)) (plugins F)"
  using assms
  by (simp add: render_text safe_def head_skipped rows_read tail_empty
      del: plugin_rows.simps text_of_lines.simps)

section \<open>The script's literal is the rendering of its fixture\<close>

lemma decimal_3000: "decimal 3000 = ''3000''"
  by code_simp

lemma render_selector_fixture: "render selector_fixture = selector_config"
  unfolding render_def selector_config_def
  by (rule arg_cong [where f = text_of_lines])
    (simp add: selector_fixture_def head_lines_def plugin_lines_def tail_lines_def decimal_3000)

lemma safe_selector_fixture: "safe selector_fixture"
  by (simp add: safe_def selector_fixture_def plain_def)

lemma plugin_rows_selector_config:
  "plugin_rows selector_config =
     [(''Selector Handler'', ''file://./plugins/librusty_beam_selector_handler.so''),
      (''File Handler'', ''file://./plugins/librusty_beam_file_handler.so'')]"
proof -
  have "plugin_rows selector_config =
      map (\<lambda>p. (name p, libraryPath p)) (plugins selector_fixture)"
    using plugin_rows_render [OF safe_selector_fixture]
    unfolding render_selector_fixture .
  then show ?thesis by (simp add: selector_fixture_def del: plugin_rows.simps)
qed

text \<open>The cells of the literal, found line by line.\<close>

lemma after_skip_char:
  "c \<noteq> CHR ''<'' \<Longrightarrow> after (CHR ''<'' # m) (c # cs) = after (CHR ''<'' # m) cs"
  by simp

lemma after_at_tag:
  "after (CHR ''<'' # m) (CHR ''<'' # cs) =
     (if prefix m cs then Some (drop (length m) cs) else after (CHR ''<'' # m) cs)"
  by simp

lemma after_lines_skipped:
  assumes "\<forall>l\<in>set ls. \<forall>s. after m (l @ CHR 0x0A # s) = after m s"
  shows "after m (concat (map (\<lambda>l. l @ [CHR 0x0A]) ls) @ s) = after m s"
  using assms by (induction ls) (simp_all del: after.simps)

lemma bindPort_selector_config: "itemprop_value ''bindPort'' selector_config = Some ''3000''"
  unfolding selector_config_def itemprop_value_def
  apply (subst text_of_lines_split [where n = 20])
   apply simp
  apply (subst after_lines_skipped)
   apply (simp add: after_skip_char after_at_tag del: after.simps(2))
  apply (simp add: after_skip_char after_at_tag cell_text_def del: after.simps(2))
  done

lemma hostName_selector_config: "itemprop_value ''hostName'' selector_config = Some ''localhost''"
  unfolding selector_config_def itemprop_value_def
  apply (subst text_of_lines_split [where n = 29])
   apply simp
  apply (subst after_lines_skipped)
   apply (simp add: after_skip_char after_at_tag del: after.simps(2))
  apply (simp add: after_skip_char after_at_tag cell_text_def del: after.simps(2))
  done

section \<open>FixtureWriter: the claims on the document\<close>

text \<open>
  C4. Rendering is deterministic. In the embedding \<open>render\<close> is a function of the fixture
  alone: it reads no clock, no environment and no state. What can be observed of that is
  stated here: two runs that write the rendering of the same fixture \<open>F\<close> to a path, from
  any two worlds, leave character for character the same text there, \<open>render F\<close>.
\<close>

theorem render_deterministic:
  assumes "write_file p (render F) w1 = (None, v1)"
    and "write_file p (render F) w2 = (None, v2)"
  shows "files v1 p = Some (render F) \<and> files v2 p = files v1 p"
proof -
  from write_file_returned [OF assms(1)]
  have o1: "openable w1 p" and f1: "write_fault w1 = None" "close_fault w1 = None"
    by simp_all
  from write_file_returned [OF assms(2)]
  have o2: "openable w2 p" and f2: "write_fault w2 = None" "close_fault w2 = None"
    by simp_all
  from write_file_succeeds [OF o1 f1, of "render F"] assms(1)
  have "files v1 p = Some (render F)" by auto
  moreover from write_file_succeeds [OF o2 f2, of "render F"] assms(2)
  have "files v2 p = Some (render F)" by auto
  ultimately show ?thesis by simp
qed

theorem render_deterministic_witness:
  "write_file config_path (render selector_fixture) ready =
     (None, snd (write_file config_path (render selector_fixture) ready)) \<and>
   write_file config_path (render selector_fixture) stale =
     (None, snd (write_file config_path (render selector_fixture) stale)) \<and>
   files (snd (write_file config_path (render selector_fixture) ready)) config_path =
     Some selector_config \<and>
   files (snd (write_file config_path (render selector_fixture) stale)) config_path =
     Some selector_config"
proof -
  have f1: "write_fault ready = None" "close_fault ready = None"
    by (simp_all add: ready_def)
  have f2: "write_fault stale = None" "close_fault stale = None"
    by (simp_all add: stale_def ready_def)
  have h1: "write_file config_path (render selector_fixture) ready =
      (None, snd (write_file config_path (render selector_fixture) ready))"
    using write_file_succeeds [OF openable_ready f1, of "render selector_fixture"] by simp
  have h2: "write_file config_path (render selector_fixture) stale =
      (None, snd (write_file config_path (render selector_fixture) stale))"
    using write_file_succeeds [OF openable_stale f2, of "render selector_fixture"] by simp
  from render_deterministic [OF h1 h2] h1 h2 show ?thesis
    by (simp add: render_selector_fixture)
qed

text \<open>
  C5. The rendered document is the head of the skeleton, then the entry of each plugin
  of the fixture's sequence, one after the other in sequence order, then the tail: none
  is dropped, merged or moved. When the values are safe to embed, a reader of the
  document therefore finds exactly the fixture's plugin sequence, in order and with
  repetitions kept.
\<close>

theorem plugin_order_preserved:
  "render F =
     concat (map (\<lambda>l. l @ [CHR 0x0A]) (head_lines F)) @
     concat (map plugin_block (plugins F)) @
     text_of_lines tail_lines \<and>
   (safe F \<longrightarrow>
      plugin_rows (render F) = map (\<lambda>p. (name p, libraryPath p)) (plugins F))"
proof (intro conjI impI)
  show "render F =
     concat (map (\<lambda>l. l @ [CHR 0x0A]) (head_lines F)) @
     concat (map plugin_block (plugins F)) @
     text_of_lines tail_lines"
    using render_text [of F] by (simp only: blocks_text)
next
  assume "safe F"
  then show "plugin_rows (render F) = map (\<lambda>p. (name p, libraryPath p)) (plugins F)"
    by (rule plugin_rows_render)
qed

theorem plugin_order_preserved_witness:
  "safe (selector_fixture\<lparr>plugins :=
      [\<lparr>name = ''File Handler'', libraryPath = ''file://b.so''\<rparr>,
       \<lparr>name = ''Selector Handler'', libraryPath = ''file://a.so''\<rparr>,
       \<lparr>name = ''File Handler'', libraryPath = ''file://b.so''\<rparr>]\<rparr>) \<and>
   plugin_rows (render (selector_fixture\<lparr>plugins :=
      [\<lparr>name = ''File Handler'', libraryPath = ''file://b.so''\<rparr>,
       \<lparr>name = ''Selector Handler'', libraryPath = ''file://a.so''\<rparr>,
       \<lparr>name = ''File Handler'', libraryPath = ''file://b.so''\<rparr>]\<rparr>)) =
     [(''File Handler'', ''file://b.so''), (''Selector Handler'', ''file://a.so''),
      (''File Handler'', ''file://b.so'')]"
proof -
  have h: "safe (selector_fixture\<lparr>plugins :=
      [\<lparr>name = ''File Handler'', libraryPath = ''file://b.so''\<rparr>,
       \<lparr>name = ''Selector Handler'', libraryPath = ''file://a.so''\<rparr>,
       \<lparr>name = ''File Handler'', libraryPath = ''file://b.so''\<rparr>]\<rparr>)"
    by (simp add: safe_def selector_fixture_def plain_def)
  from plugin_order_preserved [of "selector_fixture\<lparr>plugins :=
      [\<lparr>name = ''File Handler'', libraryPath = ''file://b.so''\<rparr>,
       \<lparr>name = ''Selector Handler'', libraryPath = ''file://a.so''\<rparr>,
       \<lparr>name = ''File Handler'', libraryPath = ''file://b.so''\<rparr>]\<rparr>"] h
  have "plugin_rows (render (selector_fixture\<lparr>plugins :=
      [\<lparr>name = ''File Handler'', libraryPath = ''file://b.so''\<rparr>,
       \<lparr>name = ''Selector Handler'', libraryPath = ''file://a.so''\<rparr>,
       \<lparr>name = ''File Handler'', libraryPath = ''file://b.so''\<rparr>]\<rparr>)) =
    map (\<lambda>p. (name p, libraryPath p)) (plugins (selector_fixture\<lparr>plugins :=
      [\<lparr>name = ''File Handler'', libraryPath = ''file://b.so''\<rparr>,
       \<lparr>name = ''Selector Handler'', libraryPath = ''file://a.so''\<rparr>,
       \<lparr>name = ''File Handler'', libraryPath = ''file://b.so''\<rparr>]\<rparr>))"
    by blast
  with h show ?thesis by (simp del: plugin_rows.simps text_of_lines.simps)
qed

text \<open>
  C6. The document the script holds is the one of the fixture with port 3000, host name
  \<^verbatim>\<open>localhost\<close> and the plugins \<^verbatim>\<open>Selector Handler\<close> and \<^verbatim>\<open>File Handler\<close>
  (\<open>selector_fixture\<close>, lemma \<open>render_selector_fixture\<close>). It lists exactly these two
  plugin entries, \<^verbatim>\<open>Selector Handler\<close> first, its \<^verbatim>\<open>bindPort\<close> cell holds
  \<^verbatim>\<open>3000\<close> and its \<^verbatim>\<open>hostName\<close> cell \<^verbatim>\<open>localhost\<close>.
\<close>

theorem example_document:
  "plugin_rows selector_config =
     [(''Selector Handler'', ''file://./plugins/librusty_beam_selector_handler.so''),
      (''File Handler'', ''file://./plugins/librusty_beam_file_handler.so'')] \<and>
   itemprop_value ''bindPort'' selector_config = Some ''3000'' \<and>
   itemprop_value ''hostName'' selector_config = Some ''localhost''"
  using plugin_rows_selector_config bindPort_selector_config hostName_selector_config
  by (simp del: plugin_rows.simps)

end
